theory Spec2Isabelle
  imports Main
begin

section \<open>Data model\<close>

text \<open>
  An article is the dictionary built by \<open>fetch_articles\<close> (keys \<open>pmid\<close>, \<open>title\<close>,
  \<open>abstract\<close>). \<open>process_and_batch_articles\<close> stores two more keys in it, \<open>word_count\<close>
  and \<open>token_count\<close>, before the article enters a batch: the extended record is the
  dictionary after that assignment.
\<close>

record article =
  pmid :: string
  title :: string
  abstract :: string

record costed_article = article +
  word_count :: int
  token_count :: int

text \<open>
  One entry of \<open>self.batches\<close>: the dictionary with the keys \<open>batch_number\<close>,
  \<open>article_count\<close> and \<open>token_count\<close> (field \<open>batch_tokens\<close> here, the name
  \<open>token_count\<close> being the article's).
\<close>

record batch_info =
  batch_number :: int
  article_count :: int
  batch_tokens :: int

text \<open>
  One call of \<open>_save_batch(batch, batch_number, token_count)\<close>: the file
  \<open>pubmed_batch_<n>.txt\<close> it writes holds the articles of \<open>batch\<close> in order.
\<close>

record saved_batch =
  file_number :: int
  file_articles :: "costed_article list"
  file_tokens :: int

text \<open>
  The attributes of a \<open>PubMedFetcher\<close> object. The tokenizer is passed to the functions
  that use it as the parameter \<open>encode\<close>; \<open>saved\<close> is the sequence of \<open>_save_batch\<close>
  calls made so far. Log lines are not modelled.
\<close>

record fetcher =
  query :: string
  years :: int
  max_results :: int
  token_limit :: int
  output_dir :: string
  review_only :: bool
  total_articles :: int
  total_words :: int
  total_tokens :: int
  skipped_articles :: int
  batches :: "batch_info list"
  saved :: "saved_batch list"

definition init :: "string \<Rightarrow> int \<Rightarrow> int \<Rightarrow> int \<Rightarrow> string \<Rightarrow> bool \<Rightarrow> fetcher" where
  "init q y m lim out rev_only =
     \<lparr>query = q, years = y, max_results = m, token_limit = lim, output_dir = out,
      review_only = rev_only, total_articles = 0, total_words = 0, total_tokens = 0,
      skipped_articles = 0, batches = [], saved = []\<rparr>"

section \<open>Cost function\<close>

text \<open>\<open>count_tokens\<close>: the length of the tokenizer's encoding of the text.\<close>

definition count_tokens :: "(string \<Rightarrow> 'tok list) \<Rightarrow> string \<Rightarrow> int" where
  "count_tokens encode text = int (length (encode text))"

text \<open>
  \<open>count_words\<close>: \<open>len(text.split())\<close>, the number of maximal runs of characters that
  are not whitespace. A character stands for the code point of its number, so a string is
  a text of code points below 256; the whitespace characters are the code points below
  256 that \<open>str.split\<close> splits at: 9 to 13, 28 to 32, 133 and 160.
\<close>

definition is_space :: "char \<Rightarrow> bool" where
  "is_space c = (c \<in> set [CHR 0x09, CHR 0x0A, CHR 0x0B, CHR 0x0C, CHR 0x0D,
                           CHR 0x1C, CHR 0x1D, CHR 0x1E, CHR 0x1F, CHR 0x20,
                           CHR 0x85, CHR 0xA0])"

fun split_ws :: "string \<Rightarrow> string \<Rightarrow> string list" where
  "split_ws w [] = (if w = [] then [] else [w])"
| "split_ws w (c # cs) =
     (if is_space c then (if w = [] then split_ws [] cs else w # split_ws [] cs)
      else split_ws (w @ [c]) cs)"

definition count_words :: "string \<Rightarrow> int" where
  "count_words text = int (length (split_ws [] text))"

section \<open>The packer\<close>

text \<open>\<open>_save_batch\<close>: the write of one batch file.\<close>

definition save_batch :: "costed_article list \<Rightarrow> int \<Rightarrow> int \<Rightarrow> fetcher \<Rightarrow> fetcher" where
  "save_batch batch n tokens self =
     self\<lparr>saved := saved self @ [\<lparr>file_number = n, file_articles = batch, file_tokens = tokens\<rparr>]\<rparr>"

text \<open>Saving a batch and appending its entry to \<open>self.batches\<close>, as both places of the
  source do.\<close>

definition close_batch :: "costed_article list \<Rightarrow> int \<Rightarrow> int \<Rightarrow> fetcher \<Rightarrow> fetcher" where
  "close_batch current_batch n current_batch_tokens self =
     (let self1 = save_batch current_batch n current_batch_tokens self
      in self1\<lparr>batches := batches self1 @
           [\<lparr>batch_number = n, article_count = int (length current_batch),
             batch_tokens = current_batch_tokens\<rparr>]\<rparr>)"

text \<open>The article with its two metrics stored.\<close>

definition with_metrics :: "(string \<Rightarrow> 'tok list) \<Rightarrow> article \<Rightarrow> costed_article" where
  "with_metrics encode a =
     (let combined_text = title a @ '' '' @ abstract a
      in \<lparr>pmid = pmid a, title = title a, abstract = abstract a,
          word_count = count_words combined_text,
          token_count = count_tokens encode combined_text\<rparr>)"

text \<open>
  The local variables of the loop of \<open>process_and_batch_articles\<close>, with the object:
  \<open>(current_batch, current_batch_tokens, batch_number, self)\<close>.
\<close>

type_synonym loop_state = "costed_article list \<times> int \<times> int \<times> fetcher"

text \<open>One iteration of the loop.\<close>

fun loop_body :: "(string \<Rightarrow> 'tok list) \<Rightarrow> loop_state \<Rightarrow> article \<Rightarrow> loop_state" where
  "loop_body encode (current_batch, current_batch_tokens, n, self) a =
     (let art = with_metrics encode a;
          self1 = self\<lparr>total_words := total_words self + word_count art,
                       total_tokens := total_tokens self + token_count art\<rparr>
      in if current_batch_tokens + token_count art > token_limit self1 \<and> current_batch \<noteq> []
         then ([art], token_count art, n + 1,
               close_batch current_batch n current_batch_tokens self1)
         else (current_batch @ [art], current_batch_tokens + token_count art, n, self1))"

fun batch_loop :: "(string \<Rightarrow> 'tok list) \<Rightarrow> loop_state \<Rightarrow> article list \<Rightarrow> loop_state" where
  "batch_loop encode st [] = st"
| "batch_loop encode st (a # as) = batch_loop encode (loop_body encode st a) as"

text \<open>The code after the loop: the final batch, then \<open>total_articles\<close>.\<close>

fun finish :: "loop_state \<Rightarrow> article list \<Rightarrow> fetcher" where
  "finish (current_batch, current_batch_tokens, n, self) articles =
     (let self1 = (if current_batch \<noteq> []
                   then close_batch current_batch n current_batch_tokens self else self)
      in self1\<lparr>total_articles := int (length articles)\<rparr>)"

definition process_and_batch_articles ::
    "(string \<Rightarrow> 'tok list) \<Rightarrow> fetcher \<Rightarrow> article list \<Rightarrow> fetcher" where
  "process_and_batch_articles encode self articles =
     finish (batch_loop encode ([], 0, 1, self) articles) articles"

text \<open>The batch files written, and the entries appended, by one call.\<close>

definition new_files :: "(string \<Rightarrow> 'tok list) \<Rightarrow> fetcher \<Rightarrow> article list \<Rightarrow> saved_batch list" where
  "new_files encode self articles =
     drop (length (saved self)) (saved (process_and_batch_articles encode self articles))"

definition new_entries :: "(string \<Rightarrow> 'tok list) \<Rightarrow> fetcher \<Rightarrow> article list \<Rightarrow> batch_info list" where
  "new_entries encode self articles =
     drop (length (batches self)) (batches (process_and_batch_articles encode self articles))"

section \<open>Fetching and the quality filter\<close>

text \<open>
  A record of the parsed response of the remote database, as far as \<open>fetch_articles\<close> reads
  it: nested dictionaries, each key present or absent. The value under \<open>AbstractText\<close> is a
  list of parts or a single value; \<open>other_keys\<close> are the further keys of the \<open>Abstract\<close>
  dictionary, which decide only whether the dictionary is empty.
\<close>

datatype abstract_text = Parts "string list" | Whole string

record abstract_data =
  AbstractText :: "abstract_text option"
  other_keys :: "string list"

record article_data =
  ArticleTitle :: "string option"
  Abstract :: "abstract_data option"

record medline_citation =
  PMID :: "string option"
  Article :: "article_data option"

record pubmed_article =
  MedlineCitation :: "medline_citation option"

text \<open>\<open>" ".join(parts)\<close>\<close>

fun join_space :: "string list \<Rightarrow> string" where
  "join_space [] = []"
| "join_space [p] = p"
| "join_space (p # q # ps) = p @ '' '' @ join_space (q # ps)"

text \<open>The truth value of a dictionary: it is not empty.\<close>

definition dict_truthy :: "abstract_data \<Rightarrow> bool" where
  "dict_truthy ab = (AbstractText ab \<noteq> None \<or> other_keys ab \<noteq> [])"

text \<open>
  What the body of the inner \<open>try\<close> does with one record: it builds the article, or takes the
  branch that skips a record without abstract, or raises \<open>KeyError\<close> at the first missing
  key.
\<close>

datatype outcome = Admitted article | NoAbstract | MissingData

definition extract_article :: "pubmed_article \<Rightarrow> outcome" where
  "extract_article r =
     (case MedlineCitation r of None \<Rightarrow> MissingData | Some mc \<Rightarrow>
      (case PMID mc of None \<Rightarrow> MissingData | Some p \<Rightarrow>
       (case Article mc of None \<Rightarrow> MissingData | Some ad \<Rightarrow>
        (case ArticleTitle ad of None \<Rightarrow> MissingData | Some t \<Rightarrow>
         (case Abstract ad of None \<Rightarrow> NoAbstract | Some ab \<Rightarrow>
          (case AbstractText ab of
             None \<Rightarrow> NoAbstract
           | Some abstract_parts \<Rightarrow>
               if dict_truthy ab
               then Admitted \<lparr>pmid = p, title = t,
                      abstract = (case abstract_parts of
                                    Parts ps \<Rightarrow> join_space ps
                                  | Whole w \<Rightarrow> w)\<rparr>
               else NoAbstract))))))"

text \<open>One iteration of the inner loop, on the list \<open>articles\<close> and the object.\<close>

definition handle_record :: "article list \<times> fetcher \<Rightarrow> pubmed_article \<Rightarrow> article list \<times> fetcher" where
  "handle_record st r =
     (case extract_article r of
        Admitted a \<Rightarrow> (fst st @ [a], snd st)
      | NoAbstract \<Rightarrow> (fst st, (snd st)\<lparr>skipped_articles := skipped_articles (snd st) + 1\<rparr>)
      | MissingData \<Rightarrow> (fst st, (snd st)\<lparr>skipped_articles := skipped_articles (snd st) + 1\<rparr>))"

text \<open>
  The outer loop over \<open>range(0, len(pmid_list), 50)\<close>. The remote call is the parameter
  \<open>efetch\<close>: \<open>None\<close> when the call or the parsing of its response raises (the chunk is
  skipped), the records of the response otherwise.
\<close>

function fetch_loop ::
    "(string list \<Rightarrow> pubmed_article list option) \<Rightarrow> string list \<Rightarrow> nat \<Rightarrow>
     article list \<times> fetcher \<Rightarrow> article list \<times> fetcher" where
  "fetch_loop efetch pmid_list i st =
     (if i < length pmid_list
      then (case efetch (take 50 (drop i pmid_list)) of
              None \<Rightarrow> fetch_loop efetch pmid_list (i + 50) st
            | Some records \<Rightarrow> fetch_loop efetch pmid_list (i + 50) (foldl handle_record st records))
      else st)"
  by pat_completeness auto
termination
  by (relation "measure (\<lambda>(efetch, pmid_list, i, st). length pmid_list - i)") auto

declare fetch_loop.simps [simp del]

definition fetch_articles ::
    "(string list \<Rightarrow> pubmed_article list option) \<Rightarrow> fetcher \<Rightarrow> string list \<Rightarrow>
     article list \<times> fetcher" where
  "fetch_articles efetch self pmid_list = fetch_loop efetch pmid_list 0 ([], self)"

text \<open>All records the remote database returned, over the chunks that did not fail.\<close>

function fetched_from ::
    "(string list \<Rightarrow> pubmed_article list option) \<Rightarrow> string list \<Rightarrow> nat \<Rightarrow> pubmed_article list" where
  "fetched_from efetch pmid_list i =
     (if i < length pmid_list
      then (case efetch (take 50 (drop i pmid_list)) of None \<Rightarrow> [] | Some records \<Rightarrow> records)
           @ fetched_from efetch pmid_list (i + 50)
      else [])"
  by pat_completeness auto
termination
  by (relation "measure (\<lambda>(efetch, pmid_list, i). length pmid_list - i)") auto

declare fetched_from.simps [simp del]

definition fetched :: "(string list \<Rightarrow> pubmed_article list option) \<Rightarrow> string list \<Rightarrow> pubmed_article list" where
  "fetched efetch pmid_list = fetched_from efetch pmid_list 0"

fun admitted :: "pubmed_article list \<Rightarrow> article list" where
  "admitted [] = []"
| "admitted (r # rs) = (case extract_article r of Admitted a \<Rightarrow> a # admitted rs | _ \<Rightarrow> admitted rs)"

definition rejected :: "pubmed_article \<Rightarrow> bool" where
  "rejected r = (case extract_article r of Admitted a \<Rightarrow> False | _ \<Rightarrow> True)"

section \<open>Summary\<close>

datatype py_error = ZeroDivisionError

text \<open>The operator \<open>//\<close> on integers.\<close>

definition floordiv :: "int \<Rightarrow> int \<Rightarrow> py_error + int" where
  "floordiv a b = (if b = 0 then Inl ZeroDivisionError else Inr (a div b))"

text \<open>\<open>str\<close> of an integer and of a truth value, and the format \<open>{:,}\<close>.\<close>

fun str_nat :: "nat \<Rightarrow> string" where
  "str_nat n = (if n < 10 then [''0123456789'' ! n]
                else str_nat (n div 10) @ [''0123456789'' ! (n mod 10)])"

declare str_nat.simps [simp del]

definition str_int :: "int \<Rightarrow> string" where
  "str_int k = (if k < 0 then ''-'' @ str_nat (nat (- k)) else str_nat (nat k))"

definition str_bool :: "bool \<Rightarrow> string" where
  "str_bool b = (if b then ''True'' else ''False'')"

fun group3 :: "string \<Rightarrow> string" where
  "group3 (a # b # c # d # ds) = a # b # c # CHR '','' # group3 (d # ds)"
| "group3 ds = ds"

definition fmt_commas :: "int \<Rightarrow> string" where
  "fmt_commas k =
     (if k < 0 then ''-'' @ rev (group3 (rev (str_nat (nat (- k)))))
      else rev (group3 (rev (str_nat (nat k)))))"

definition nl :: string where
  "nl = [CHR 0x0A]"

definition rule_of :: "char \<Rightarrow> string" where
  "rule_of c = replicate 60 c"

text \<open>
  The two average lines of \<open>save_summary\<close> and the one of \<open>print_summary\<close>, each under
  its guard \<open>self.total_articles > 0\<close>.
\<close>

definition summary_averages :: "fetcher \<Rightarrow> py_error + string list" where
  "summary_averages self =
     (if total_articles self > 0
      then (case floordiv (total_words self) (total_articles self) of
              Inl e \<Rightarrow> Inl e
            | Inr avg_words \<Rightarrow>
                (case floordiv (total_tokens self) (total_articles self) of
                   Inl e \<Rightarrow> Inl e
                 | Inr avg_tokens \<Rightarrow>
                     Inr [''Average words per article: '' @ str_int avg_words @ nl,
                          ''Average tokens per article: '' @ str_int avg_tokens @ nl @ nl]))
      else Inr [])"

definition printed_average :: "fetcher \<Rightarrow> py_error + string list" where
  "printed_average self =
     (if total_articles self > 0
      then (case floordiv (total_tokens self) (total_articles self) of
              Inl e \<Rightarrow> Inl e
            | Inr avg_tokens \<Rightarrow> Inr [''Avg tokens/article: '' @ str_int avg_tokens])
      else Inr [])"

text \<open>
  \<open>save_summary\<close>: the strings written to \<open>summary.txt\<close>, one per call of \<open>f.write\<close>, or
  the exception raised. \<open>now\<close> is the formatted time of the run.
\<close>

definition save_summary :: "string \<Rightarrow> fetcher \<Rightarrow> py_error + string list" where
  "save_summary now self =
     (case summary_averages self of
        Inl e \<Rightarrow> Inl e
      | Inr averages \<Rightarrow> Inr (
          [rule_of CHR ''='' @ nl,
           ''PUBMED FETCH SUMMARY'' @ nl,
           rule_of CHR ''='' @ nl @ nl,
           ''Search Query: '' @ query self @ nl,
           ''Review Articles Only: '' @ str_bool (review_only self) @ nl,
           ''Date Range: Last '' @ str_int (years self) @ '' year(s)'' @ nl,
           ''Fetch Date: '' @ now @ nl @ nl,
           rule_of CHR ''-'' @ nl,
           ''FETCH STATISTICS'' @ nl,
           rule_of CHR ''-'' @ nl,
           ''Total articles fetched: '' @ str_int (total_articles self) @ nl,
           ''Articles skipped (no abstract): '' @ str_int (skipped_articles self) @ nl,
           ''Total batches created: '' @ str_int (int (length (batches self))) @ nl @ nl,
           rule_of CHR ''-'' @ nl,
           ''TOKEN & WORD METRICS'' @ nl,
           rule_of CHR ''-'' @ nl,
           ''Total words: '' @ fmt_commas (total_words self) @ nl,
           ''Total tokens: '' @ fmt_commas (total_tokens self) @ nl]
          @ averages @
          [rule_of CHR ''-'' @ nl,
           ''BATCH DISTRIBUTION'' @ nl,
           rule_of CHR ''-'' @ nl]
          @ map (\<lambda>b. ''Batch '' @ str_int (batch_number b) @ '': '' @ str_int (article_count b)
                      @ '' articles, '' @ fmt_commas (batch_tokens b) @ '' tokens'' @ nl)
                (batches self) @
          [nl @ rule_of CHR ''-'' @ nl,
           ''OUTPUT FILES'' @ nl,
           rule_of CHR ''-'' @ nl,
           ''Output directory: '' @ output_dir self @ nl]
          @ map (\<lambda>i. ''  - pubmed_batch_'' @ str_nat i @ ''.txt'' @ nl)
                [1..<length (batches self) + 1] @
          [''  - summary.txt'' @ nl,
           ''  - fetch_log.txt'' @ nl]))"

text \<open>\<open>print_summary\<close>: the strings printed, one per call of \<open>print\<close>.\<close>

definition print_summary :: "fetcher \<Rightarrow> py_error + string list" where
  "print_summary self =
     (case printed_average self of
        Inl e \<Rightarrow> Inl e
      | Inr average \<Rightarrow> Inr (
          [nl @ rule_of CHR ''='',
           ''FINAL SUMMARY'',
           rule_of CHR ''='',
           ''Query: '' @ query self,
           ''Review only: '' @ str_bool (review_only self),
           ''Total articles: '' @ str_int (total_articles self),
           ''Skipped: '' @ str_int (skipped_articles self),
           ''Total batches: '' @ str_int (int (length (batches self))),
           ''Total words: '' @ fmt_commas (total_words self),
           ''Total tokens: '' @ fmt_commas (total_tokens self)]
          @ average @
          [nl @ ''Output directory: '' @ output_dir self,
           rule_of CHR ''='']))"

text \<open>Whether a written string begins with the given text.\<close>

fun starts_with :: "string \<Rightarrow> string \<Rightarrow> bool" where
  "starts_with [] s = True"
| "starts_with (p # ps) [] = False"
| "starts_with (p # ps) (c # cs) = (p = c \<and> starts_with ps cs)"

text \<open>Whether the given text occurs in a written string.\<close>

fun contains :: "string \<Rightarrow> string \<Rightarrow> bool" where
  "contains p [] = (p = [])"
| "contains p (c # cs) = (starts_with p (c # cs) \<or> contains p cs)"

text \<open>
  Whether an output says anything about an average or about something not applicable,
  in any wording, upper or lower case.
\<close>

definition says_average :: "py_error + string list \<Rightarrow> bool" where
  "says_average out =
     (case out of
        Inl e \<Rightarrow> False
      | Inr strings \<Rightarrow>
          list_ex (contains ''verage'') strings \<or> list_ex (contains ''VERAGE'') strings \<or>
          list_ex (contains ''vg'') strings \<or> list_ex (contains ''VG'') strings \<or>
          list_ex (contains ''pplicable'') strings \<or> list_ex (contains ''PPLICABLE'') strings \<or>
          list_ex (contains ''N/A'') strings \<or> list_ex (contains ''n/a'') strings)"

section \<open>The batches of a run, as a function of the loop variables\<close>

text \<open>
  The batches that the loop and the code after it close, from given values of
  \<open>current_batch\<close>, \<open>current_batch_tokens\<close> and \<open>batch_number\<close>, on articles whose metrics are
  stored. The lemmas below show that this is what \<open>process_and_batch_articles\<close> saves.
\<close>

fun emit :: "int \<Rightarrow> costed_article list \<Rightarrow> int \<Rightarrow> int \<Rightarrow> costed_article list \<Rightarrow> saved_batch list" where
  "emit lim cb cbt n [] =
     (if cb \<noteq> [] then [\<lparr>file_number = n, file_articles = cb, file_tokens = cbt\<rparr>] else [])"
| "emit lim cb cbt n (r # rs) =
     (if cbt + token_count r > lim \<and> cb \<noteq> []
      then \<lparr>file_number = n, file_articles = cb, file_tokens = cbt\<rparr>
           # emit lim [r] (token_count r) (n + 1) rs
      else emit lim (cb @ [r]) (cbt + token_count r) n rs)"

text \<open>The entry of \<open>self.batches\<close> that goes with a saved batch.\<close>

definition entry_of :: "saved_batch \<Rightarrow> batch_info" where
  "entry_of b = \<lparr>batch_number = file_number b, article_count = int (length (file_articles b)),
                batch_tokens = file_tokens b\<rparr>"

text \<open>The article without its two metrics.\<close>

definition plain :: "costed_article \<Rightarrow> article" where
  "plain r = \<lparr>pmid = pmid r, title = title r, abstract = abstract r\<rparr>"

section \<open>Sample inputs\<close>

text \<open>A tokenizer with one token per character that is not whitespace.\<close>

definition letter_tokens :: "string \<Rightarrow> char list" where
  "letter_tokens text = filter (\<lambda>c. \<not> is_space c) text"

definition sample_fetcher :: fetcher where
  "sample_fetcher = init ''sleep'' 5 100 10 ''out'' False"

definition sample_articles :: "article list" where
  "sample_articles =
     [\<lparr>pmid = ''1'', title = ''aaa'', abstract = ''bb''\<rparr>,
      \<lparr>pmid = ''2'', title = ''ccccc'', abstract = ''dd''\<rparr>,
      \<lparr>pmid = ''3'', title = ''e'', abstract = ''ff''\<rparr>,
      \<lparr>pmid = ''4'', title = ''gggggggg'', abstract = ''hhhh''\<rparr>]"

text \<open>The same object with a token limit below every sample article.\<close>

definition tight_fetcher :: fetcher where
  "tight_fetcher = init ''sleep'' 5 100 2 ''out'' False"

text \<open>Articles without any text: their token count is zero.\<close>

definition blank_articles :: "article list" where
  "blank_articles =
     [\<lparr>pmid = ''5'', title = [], abstract = []\<rparr>,
      \<lparr>pmid = ''6'', title = [], abstract = []\<rparr>]"

text \<open>
  A response of five records: three complete ones, one without \<open>Abstract\<close> and one without
  \<open>ArticleTitle\<close>.
\<close>

definition complete_record :: "string \<Rightarrow> string \<Rightarrow> string list \<Rightarrow> pubmed_article" where
  "complete_record p t parts =
     \<lparr>MedlineCitation = Some \<lparr>PMID = Some p, Article = Some
        \<lparr>ArticleTitle = Some t,
         Abstract = Some \<lparr>AbstractText = Some (Parts parts), other_keys = []\<rparr>\<rparr>\<rparr>\<rparr>"

definition sample_response :: "pubmed_article list" where
  "sample_response =
     [complete_record ''1'' ''aaa'' [''bb''],
      \<lparr>MedlineCitation = Some \<lparr>PMID = Some ''8'', Article = Some
         \<lparr>ArticleTitle = Some ''no abstract'', Abstract = None\<rparr>\<rparr>\<rparr>,
      complete_record ''2'' ''ccccc'' [''dd''],
      \<lparr>MedlineCitation = Some \<lparr>PMID = Some ''9'', Article = Some
         \<lparr>ArticleTitle = None, Abstract = None\<rparr>\<rparr>\<rparr>,
      complete_record ''3'' ''e'' [''f'', ''f'']]"

definition sample_efetch :: "string list \<Rightarrow> pubmed_article list option" where
  "sample_efetch ids =
     (if ids = [''1'', ''8'', ''2'', ''9'', ''3''] then Some sample_response else None)"

text \<open>A response with one record whose \<open>AbstractText\<close> is a single empty part.\<close>

definition empty_abstract_efetch :: "string list \<Rightarrow> pubmed_article list option" where
  "empty_abstract_efetch ids = Some [complete_record ''7'' ''T'' [[]]]"

text \<open>
  An object with the token limit of \<open>sample_fetcher\<close> that has been used before: other
  query, counters that are not zero, a batch already saved.
\<close>

definition busy_fetcher :: fetcher where
  "busy_fetcher =
     \<lparr>query = ''other'', years = 1, max_results = 20, token_limit = token_limit sample_fetcher,
      output_dir = ''elsewhere'', review_only = True, total_articles = 7, total_words = 40,
      total_tokens = 99, skipped_articles = 2,
      batches = [\<lparr>batch_number = 1, article_count = 7, batch_tokens = 99\<rparr>],
      saved = [\<lparr>file_number = 1, file_articles = [], file_tokens = 99\<rparr>]\<rparr>"

section \<open>What one call saves\<close>

lemma saved_loop:
  "saved (finish (batch_loop encode (cb, cbt, n, s) as) xs) =
     saved s @ emit (token_limit s) cb cbt n (map (with_metrics encode) as)"
  by (induction as arbitrary: cb cbt n s)
     (simp_all add: Let_def close_batch_def save_batch_def)

lemma batches_loop:
  "batches (finish (batch_loop encode (cb, cbt, n, s) as) xs) =
     batches s @ map entry_of (emit (token_limit s) cb cbt n (map (with_metrics encode) as))"
  by (induction as arbitrary: cb cbt n s)
     (simp_all add: Let_def close_batch_def save_batch_def entry_of_def)

lemma tokens_loop:
  "total_tokens (finish (batch_loop encode (cb, cbt, n, s) as) xs) =
     total_tokens s + sum_list (map (\<lambda>a. token_count (with_metrics encode a)) as)"
  by (induction as arbitrary: cb cbt n s)
     (simp_all add: Let_def close_batch_def save_batch_def)

lemma words_loop:
  "total_words (finish (batch_loop encode (cb, cbt, n, s) as) xs) =
     total_words s + sum_list (map (\<lambda>a. word_count (with_metrics encode a)) as)"
  by (induction as arbitrary: cb cbt n s)
     (simp_all add: Let_def close_batch_def save_batch_def)

lemma new_files_emit:
  "new_files encode s as = emit (token_limit s) [] 0 1 (map (with_metrics encode) as)"
  by (simp add: new_files_def process_and_batch_articles_def saved_loop)

lemma new_entries_emit:
  "new_entries encode s as = map entry_of (emit (token_limit s) [] 0 1 (map (with_metrics encode) as))"
  by (simp add: new_entries_def process_and_batch_articles_def batches_loop)

lemma emit_concat: "concat (map file_articles (emit lim cb cbt n rs)) = cb @ rs"
  by (induction rs arbitrary: cb cbt n) auto

lemma emit_nonempty: "b \<in> set (emit lim cb cbt n rs) \<Longrightarrow> file_articles b \<noteq> []"
  by (induction rs arbitrary: cb cbt n) (auto split: if_splits)

lemma emit_sum:
  "b \<in> set (emit lim cb (sum_list (map token_count cb)) n rs) \<Longrightarrow>
   file_tokens b = sum_list (map token_count (file_articles b))"
proof (induction rs arbitrary: cb n)
  case Nil
  then show ?case by (auto split: if_splits)
next
  case (Cons r rs)
  from Cons.IH[of "[r]" "n + 1"] Cons.IH[of "cb @ [r]" n] Cons.prems
  show ?case by (auto split: if_splits)
qed

lemma emit_numbers:
  "map file_number (emit lim cb cbt n rs) = map (\<lambda>i. n + int i) [0..<length (emit lim cb cbt n rs)]"
proof (induction rs arbitrary: cb cbt n)
  case Nil
  then show ?case by simp
next
  case (Cons r rs)
  show ?case
  proof (cases "cbt + token_count r > lim \<and> cb \<noteq> []")
    case True
    have "map (\<lambda>i. n + int i) [0..<Suc k] = n # map (\<lambda>i. (n + 1) + int i) [0..<k]" for k
      by (simp add: upt_rec[of 0 "Suc k"] map_Suc_upt[symmetric] del: upt_Suc)
    with True Cons.IH[of "[r]" "token_count r" "n + 1"] show ?thesis by simp
  next
    case False
    with Cons.IH[of "cb @ [r]" "cbt + token_count r" n] show ?thesis by auto
  qed
qed

lemma member_le_sum:
  fixes f :: "'a \<Rightarrow> int"
  shows "x \<in> set xs \<Longrightarrow> \<forall>y \<in> set xs. 0 \<le> f y \<Longrightarrow> f x \<le> sum_list (map f xs)"
proof (induction xs)
  case Nil
  then show ?case by simp
next
  case (Cons a xs)
  have nn: "0 \<le> sum_list (map f xs)" using Cons.prems(2) by (intro sum_list_nonneg) auto
  show ?case
  proof (cases "x = a")
    case True
    with nn show ?thesis by simp
  next
    case False
    with Cons have "f x \<le> sum_list (map f xs)" by simp
    moreover have "0 \<le> f a" using Cons.prems(2) by simp
    ultimately show ?thesis by simp
  qed
qed

lemma emit_capacity:
  "\<forall>r \<in> set cb \<union> set rs. 0 \<le> token_count r \<Longrightarrow>
   (length cb > 1 \<longrightarrow> sum_list (map token_count cb) \<le> lim) \<Longrightarrow>
   b \<in> set (emit lim cb (sum_list (map token_count cb)) n rs) \<Longrightarrow>
   length (file_articles b) > 1 \<Longrightarrow> file_tokens b \<le> lim"
proof (induction rs arbitrary: cb n)
  case Nil
  then show ?case by (auto split: if_splits)
next
  case (Cons r rs)
  let ?cbt = "sum_list (map token_count cb)"
  show ?case
  proof (cases "?cbt + token_count r > lim \<and> cb \<noteq> []")
    case True
    with Cons.prems(3) have "b = \<lparr>file_number = n, file_articles = cb, file_tokens = ?cbt\<rparr> \<or>
        b \<in> set (emit lim [r] (sum_list (map token_count [r])) (n + 1) rs)" by simp
    then show ?thesis
    proof
      assume "b = \<lparr>file_number = n, file_articles = cb, file_tokens = ?cbt\<rparr>"
      with Cons.prems show ?thesis by simp
    next
      assume "b \<in> set (emit lim [r] (sum_list (map token_count [r])) (n + 1) rs)"
      with Cons.prems Cons.IH[of "[r]" "n + 1"] show ?thesis by simp
    qed
  next
    case False
    with Cons.prems(3)
    have mem: "b \<in> set (emit lim (cb @ [r]) (sum_list (map token_count (cb @ [r]))) n rs)"
      by auto
    from False have "cb = [] \<or> ?cbt + token_count r \<le> lim" by auto
    then have "length (cb @ [r]) > 1 \<longrightarrow> sum_list (map token_count (cb @ [r])) \<le> lim"
      by auto
    moreover have "\<forall>x \<in> set (cb @ [r]) \<union> set rs. 0 \<le> token_count x"
      using Cons.prems(1) by auto
    ultimately show ?thesis
      using mem Cons.prems(4) Cons.IH[of "cb @ [r]" n] by blast
  qed
qed

lemma emit_oversized:
  "\<forall>r \<in> set cb \<union> set rs. 0 \<le> token_count r \<Longrightarrow>
   (\<forall>r \<in> set cb. token_count r > lim \<longrightarrow> cb = [r]) \<Longrightarrow>
   b \<in> set (emit lim cb (sum_list (map token_count cb)) n rs) \<Longrightarrow>
   x \<in> set (file_articles b) \<Longrightarrow> token_count x > lim \<Longrightarrow> file_articles b = [x]"
proof (induction rs arbitrary: cb n)
  case Nil
  then show ?case by (auto split: if_splits)
next
  case (Cons r rs)
  let ?cbt = "sum_list (map token_count cb)"
  show ?case
  proof (cases "?cbt + token_count r > lim \<and> cb \<noteq> []")
    case True
    with Cons.prems(3) have "b = \<lparr>file_number = n, file_articles = cb, file_tokens = ?cbt\<rparr> \<or>
        b \<in> set (emit lim [r] (sum_list (map token_count [r])) (n + 1) rs)" by simp
    then show ?thesis
    proof
      assume "b = \<lparr>file_number = n, file_articles = cb, file_tokens = ?cbt\<rparr>"
      with Cons.prems show ?thesis by simp
    next
      assume "b \<in> set (emit lim [r] (sum_list (map token_count [r])) (n + 1) rs)"
      with Cons.prems Cons.IH[of "[r]" "n + 1"] show ?thesis by simp
    qed
  next
    case False
    with Cons.prems(3)
    have mem: "b \<in> set (emit lim (cb @ [r]) (sum_list (map token_count (cb @ [r]))) n rs)"
      by auto
    have nn: "\<forall>x \<in> set (cb @ [r]) \<union> set rs. 0 \<le> token_count x"
      using Cons.prems(1) by auto
    have "\<forall>y \<in> set (cb @ [r]). token_count y > lim \<longrightarrow> cb @ [r] = [y]"
    proof (cases "cb = []")
      case True
      then show ?thesis by simp
    next
      case nonempty: False
      with False have le: "sum_list (map token_count (cb @ [r])) \<le> lim" by simp
      have "token_count y \<le> lim" if "y \<in> set (cb @ [r])" for y
      proof -
        have "token_count y \<le> sum_list (map token_count (cb @ [r]))"
          using that nn by (intro member_le_sum) auto
        with le show ?thesis by simp
      qed
      then show ?thesis by fastforce
    qed
    with mem nn Cons.prems(4,5) Cons.IH[of "cb @ [r]" n] show ?thesis by blast
  qed
qed

lemma token_count_nonneg: "0 \<le> token_count (with_metrics encode a)"
  by (simp add: with_metrics_def count_tokens_def Let_def)

lemma metrics_nonneg: "\<forall>r \<in> set [] \<union> set (map (with_metrics encode) as). 0 \<le> token_count r"
  by (auto simp: token_count_nonneg)

lemma token_limit_process [simp]:
  "token_limit (finish (batch_loop encode (cb, cbt, n, s) as) xs) = token_limit s"
  by (induction as arbitrary: cb cbt n s)
     (simp_all add: Let_def close_batch_def save_batch_def)

lemma plain_with_metrics [simp]: "plain (with_metrics encode a) = a"
  by (simp add: plain_def with_metrics_def Let_def)

lemma emit_tokens_total:
  "sum_list (map file_tokens (emit lim cb (sum_list (map token_count cb)) n rs)) =
     sum_list (map token_count (cb @ rs))"
proof (induction rs arbitrary: cb n)
  case Nil
  then show ?case by simp
next
  case (Cons r rs)
  from Cons.IH[of "[r]" "n + 1"] Cons.IH[of "cb @ [r]" n]
  show ?case by simp
qed

lemma emit_all_oversized:
  "\<forall>r \<in> set rs. lim < token_count r \<and> 0 \<le> token_count r \<Longrightarrow> 0 \<le> cbt \<Longrightarrow>
   map file_articles (emit lim cb cbt n rs) = (if cb = [] then [] else [cb]) @ map (\<lambda>r. [r]) rs"
proof (induction rs arbitrary: cb cbt n)
  case Nil
  then show ?case by simp
next
  case (Cons r rs)
  from Cons.prems have r: "lim < token_count r" "0 \<le> token_count r"
    and rest: "\<forall>r \<in> set rs. lim < token_count r \<and> 0 \<le> token_count r" by simp_all
  show ?case
  proof (cases "cb = []")
    case True
    with Cons.IH[OF rest, of "cbt + token_count r" "[r]" n] r Cons.prems(2)
    show ?thesis by simp
  next
    case False
    from r Cons.prems(2) have "lim < cbt + token_count r" by simp
    with False Cons.IH[OF rest r(2), of "[r]" "n + 1"] show ?thesis by simp
  qed
qed

section \<open>A sample run\<close>

lemma sample_files:
  "new_files letter_tokens sample_fetcher sample_articles =
     [\<lparr>file_number = 1,
       file_articles = [\<lparr>pmid = ''1'', title = ''aaa'', abstract = ''bb'', word_count = 2, token_count = 5\<rparr>],
       file_tokens = 5\<rparr>,
      \<lparr>file_number = 2,
       file_articles = [\<lparr>pmid = ''2'', title = ''ccccc'', abstract = ''dd'', word_count = 2, token_count = 7\<rparr>,
                        \<lparr>pmid = ''3'', title = ''e'', abstract = ''ff'', word_count = 2, token_count = 3\<rparr>],
       file_tokens = 10\<rparr>,
      \<lparr>file_number = 3,
       file_articles = [\<lparr>pmid = ''4'', title = ''gggggggg'', abstract = ''hhhh'', word_count = 2, token_count = 12\<rparr>],
       file_tokens = 12\<rparr>]"
  by code_simp

lemma sample_limit: "token_limit sample_fetcher = 10"
  by (simp add: sample_fetcher_def init_def)

lemma sample_entries:
  "length (new_entries letter_tokens sample_fetcher sample_articles) = 3"
  by (simp add: new_entries_emit sample_files[unfolded new_files_emit])

section \<open>What fetching returns\<close>

lemma admitted_append: "admitted (xs @ ys) = admitted xs @ admitted ys"
  by (induction xs) (auto split: outcome.splits)

lemma handle_records:
  "foldl handle_record (arts, s) rs =
     (arts @ admitted rs,
      s\<lparr>skipped_articles := skipped_articles s + int (length (filter rejected rs))\<rparr>)"
proof (induction rs arbitrary: arts s)
  case Nil
  then show ?case by simp
next
  case (Cons r rs)
  let ?s1 = "s\<lparr>skipped_articles := skipped_articles s + 1\<rparr>"
  show ?case
  proof (cases "extract_article r")
    case (Admitted a)
    then have "handle_record (arts, s) r = (arts @ [a], s)"
      by (simp add: handle_record_def)
    with Cons.IH[of "arts @ [a]" s] Admitted show ?thesis
      by (simp add: rejected_def)
  next
    case NoAbstract
    then have "handle_record (arts, s) r = (arts, ?s1)"
      by (simp add: handle_record_def)
    with Cons.IH[of arts ?s1] NoAbstract show ?thesis
      by (simp add: rejected_def)
  next
    case MissingData
    then have "handle_record (arts, s) r = (arts, ?s1)"
      by (simp add: handle_record_def)
    with Cons.IH[of arts ?s1] MissingData show ?thesis
      by (simp add: rejected_def)
  qed
qed

lemma fetch_loop_result:
  "fetch_loop efetch pmid_list i (arts, s) =
     (arts @ admitted (fetched_from efetch pmid_list i),
      s\<lparr>skipped_articles := skipped_articles s
           + int (length (filter rejected (fetched_from efetch pmid_list i)))\<rparr>)"
proof (induction efetch pmid_list i "(arts, s)" arbitrary: arts s rule: fetch_loop.induct)
  case (1 efetch pmid_list i)
  show ?case
  proof (cases "i < length pmid_list")
    case False
    then show ?thesis
      by (simp add: fetch_loop.simps[of efetch pmid_list i] fetched_from.simps[of efetch pmid_list i])
  next
    case True
    show ?thesis
    proof (cases "efetch (take 50 (drop i pmid_list))")
      case None
      with True "1.hyps"(1)[OF True None] show ?thesis
        by (simp add: fetch_loop.simps[of efetch pmid_list i]
            fetched_from.simps[of efetch pmid_list i])
    next
      case (Some records)
      with True "1.hyps"(2)[OF True Some handle_records] show ?thesis
        by (simp add: fetch_loop.simps[of efetch pmid_list i]
            fetched_from.simps[of efetch pmid_list i] handle_records admitted_append)
    qed
  qed
qed

lemma fetch_articles_result:
  "fetch_articles efetch self pmid_list =
     (admitted (fetched efetch pmid_list),
      self\<lparr>skipped_articles := skipped_articles self
           + int (length (filter rejected (fetched efetch pmid_list)))\<rparr>)"
  by (simp add: fetch_articles_def fetched_def fetch_loop_result)

lemma extract_article_Admitted:
  "extract_article r = Admitted a \<longleftrightarrow>
     (\<exists>mc ad ab txt. MedlineCitation r = Some mc \<and> PMID mc = Some (pmid a) \<and>
        Article mc = Some ad \<and> ArticleTitle ad = Some (title a) \<and> Abstract ad = Some ab \<and>
        AbstractText ab = Some txt \<and>
        abstract a = (case txt of Parts ps \<Rightarrow> join_space ps | Whole w \<Rightarrow> w))"
  by (cases a) (auto simp: extract_article_def dict_truthy_def split: option.splits)

section \<open>The average lines of the two summaries\<close>

lemma summary_averages_eq:
  "summary_averages self =
     (if total_articles self > 0
      then Inr [''Average words per article: ''
                  @ str_int (total_words self div total_articles self) @ nl,
                ''Average tokens per article: ''
                  @ str_int (total_tokens self div total_articles self) @ nl @ nl]
      else Inr [])"
  by (simp add: summary_averages_def floordiv_def)

lemma printed_average_eq:
  "printed_average self =
     (if total_articles self > 0
      then Inr [''Avg tokens/article: '' @ str_int (total_tokens self div total_articles self)]
      else Inr [])"
  by (simp add: printed_average_def floordiv_def)

section \<open>Claims about the packer\<close>

text \<open>
  C1 (capacity invariant). Every batch saved by \<open>process_and_batch_articles\<close> that holds
  more than one article has a token total of at most \<open>token_limit\<close>; a batch whose total
  exceeds \<open>token_limit\<close> holds exactly one article, and the token count of that article
  itself exceeds \<open>token_limit\<close>.
\<close>

theorem capacity_invariant:
  "\<forall>b \<in> set (new_files encode self articles).
     (length (file_articles b) > 1 \<longrightarrow> file_tokens b \<le> token_limit self) \<and>
     (file_tokens b > token_limit self \<longrightarrow>
        (\<exists>r. file_articles b = [r] \<and> token_count r > token_limit self))"
proof
  fix b
  assume mem: "b \<in> set (new_files encode self articles)"
  let ?rs = "map (with_metrics encode) articles"
  from mem have e: "b \<in> set (emit (token_limit self) [] (sum_list (map token_count [])) 1 ?rs)"
    by (simp add: new_files_emit)
  have cap: "length (file_articles b) > 1 \<longrightarrow> file_tokens b \<le> token_limit self"
    using emit_capacity[OF metrics_nonneg _ e] by simp
  have ne: "file_articles b \<noteq> []"
    using emit_nonempty[OF e] .
  have total: "file_tokens b = sum_list (map token_count (file_articles b))"
    using emit_sum[OF e] .
  have "\<exists>r. file_articles b = [r] \<and> token_count r > token_limit self"
    if over: "file_tokens b > token_limit self"
  proof -
    from over cap have "length (file_articles b) \<le> 1" by auto
    with ne obtain r where one: "file_articles b = [r]"
      by (cases "file_articles b") auto
    with total over show ?thesis by simp
  qed
  with cap show "(length (file_articles b) > 1 \<longrightarrow> file_tokens b \<le> token_limit self) \<and>
     (file_tokens b > token_limit self \<longrightarrow>
        (\<exists>r. file_articles b = [r] \<and> token_count r > token_limit self))" by blast
qed

theorem capacity_invariant_witness:
  "length (file_articles (new_files letter_tokens sample_fetcher sample_articles ! 1)) > 1 \<and>
   file_tokens (new_files letter_tokens sample_fetcher sample_articles ! 1) \<le> token_limit sample_fetcher \<and>
   file_tokens (new_files letter_tokens sample_fetcher sample_articles ! 2) > token_limit sample_fetcher \<and>
   (\<exists>r. file_articles (new_files letter_tokens sample_fetcher sample_articles ! 2) = [r] \<and>
        token_count r > token_limit sample_fetcher)"
proof -
  let ?fs = "new_files letter_tokens sample_fetcher sample_articles"
  have m1: "?fs ! 1 \<in> set ?fs" and m2: "?fs ! 2 \<in> set ?fs"
    by (simp_all add: sample_files)
  have long: "length (file_articles (?fs ! 1)) > 1"
    by (simp add: sample_files)
  have over: "file_tokens (?fs ! 2) > token_limit sample_fetcher"
    by (simp add: sample_files sample_limit)
  from capacity_invariant[of letter_tokens sample_fetcher sample_articles] m1 m2 long over
  show ?thesis by blast
qed

text \<open>
  C2 (completeness and order). The articles of the saved batches, concatenated in the
  order the batches were saved, are the input articles in their order, each with its two
  metrics stored; without the metrics they are the input list itself. This holds for every
  \<open>token_limit\<close>.
\<close>

theorem order_preserved:
  "concat (map file_articles (new_files encode self articles)) = map (with_metrics encode) articles
   \<and> map plain (concat (map file_articles (new_files encode self articles))) = articles"
  by (simp add: new_files_emit emit_concat comp_def)

text \<open>
  C3 (oversized articles). In every saved batch, an article whose own token count exceeds
  \<open>token_limit\<close> is the only article of its batch; every input article of that kind is
  saved, alone in a batch; and when every input article exceeds \<open>token_limit\<close>, the saved
  batches are the input articles, one per batch, in order.
\<close>

theorem oversized_alone:
  "(\<forall>b \<in> set (new_files encode self articles). \<forall>r \<in> set (file_articles b).
      token_count r > token_limit self \<longrightarrow> file_articles b = [r]) \<and>
   (\<forall>a \<in> set articles. token_count (with_metrics encode a) > token_limit self \<longrightarrow>
      (\<exists>b \<in> set (new_files encode self articles). file_articles b = [with_metrics encode a])) \<and>
   ((\<forall>a \<in> set articles. token_count (with_metrics encode a) > token_limit self) \<longrightarrow>
      map file_articles (new_files encode self articles) = map (\<lambda>a. [with_metrics encode a]) articles)"
proof -
  let ?rs = "map (with_metrics encode) articles"
  let ?fs = "new_files encode self articles"
  have alone: "file_articles b = [r]"
    if "b \<in> set ?fs" "r \<in> set (file_articles b)" "token_count r > token_limit self" for b r
  proof -
    from that(1) have "b \<in> set (emit (token_limit self) [] (sum_list (map token_count [])) 1 ?rs)"
      by (simp add: new_files_emit)
    from emit_oversized[OF metrics_nonneg _ this that(2,3)] show ?thesis by simp
  qed
  have present: "\<exists>b \<in> set ?fs. file_articles b = [with_metrics encode a]"
    if "a \<in> set articles" "token_count (with_metrics encode a) > token_limit self" for a
  proof -
    from that(1) have "with_metrics encode a \<in> set (concat (map file_articles ?fs))"
      by (simp add: new_files_emit emit_concat)
    then obtain b where b: "b \<in> set ?fs" "with_metrics encode a \<in> set (file_articles b)"
      by auto
    with alone[OF b that(2)] show ?thesis by blast
  qed
  have every: "map file_articles ?fs = map (\<lambda>a. [with_metrics encode a]) articles"
    if "\<forall>a \<in> set articles. token_count (with_metrics encode a) > token_limit self"
  proof -
    from that have "\<forall>r \<in> set ?rs. token_limit self < token_count r \<and> 0 \<le> token_count r"
      by (auto simp: token_count_nonneg)
    from emit_all_oversized[OF this, of 0 "[]" 1] show ?thesis
      by (simp add: new_files_emit comp_def)
  qed
  from alone present every show ?thesis by blast
qed

theorem oversized_alone_witness:
  "token_count (with_metrics letter_tokens \<lparr>pmid = ''4'', title = ''gggggggg'', abstract = ''hhhh''\<rparr>)
     > token_limit sample_fetcher \<and>
   file_articles (new_files letter_tokens sample_fetcher sample_articles ! 2) =
     [with_metrics letter_tokens \<lparr>pmid = ''4'', title = ''gggggggg'', abstract = ''hhhh''\<rparr>] \<and>
   list_all (\<lambda>a. token_count (with_metrics letter_tokens a) > token_limit tight_fetcher)
     sample_articles \<and>
   map file_articles (new_files letter_tokens tight_fetcher sample_articles) =
     map (\<lambda>a. [with_metrics letter_tokens a]) sample_articles"
proof -
  let ?fs = "new_files letter_tokens sample_fetcher sample_articles"
  let ?r = "with_metrics letter_tokens \<lparr>pmid = ''4'', title = ''gggggggg'', abstract = ''hhhh''\<rparr>"
  have r: "?r = \<lparr>pmid = ''4'', title = ''gggggggg'', abstract = ''hhhh'', word_count = 2,
                  token_count = 12\<rparr>"
    by code_simp
  have over: "token_count ?r > token_limit sample_fetcher"
    by (simp add: r sample_limit)
  have mem: "?fs ! 2 \<in> set ?fs" "?r \<in> set (file_articles (?fs ! 2))"
    by (simp_all add: sample_files r)
  have tight: "\<forall>a \<in> set sample_articles.
      token_count (with_metrics letter_tokens a) > token_limit tight_fetcher"
    by code_simp
  note thm1 = oversized_alone[of letter_tokens sample_fetcher sample_articles]
  note thm2 = oversized_alone[of letter_tokens tight_fetcher sample_articles]
  from thm1 mem over have "file_articles (?fs ! 2) = [?r]" by blast
  moreover from thm2 tight
  have "map file_articles (new_files letter_tokens tight_fetcher sample_articles) =
     map (\<lambda>a. [with_metrics letter_tokens a]) sample_articles" by blast
  moreover from tight
  have "list_all (\<lambda>a. token_count (with_metrics letter_tokens a) > token_limit tight_fetcher)
     sample_articles" by (simp add: list_all_iff)
  ultimately show ?thesis using over by blast
qed

text \<open>
  C4 (tie at the limit). When \<open>current_batch_tokens\<close> plus the token count of the next
  article equals \<open>token_limit\<close>, the iteration appends the article to \<open>current_batch\<close>: the
  batch number is unchanged and nothing is saved or appended to \<open>self.batches\<close>; only the
  two totals of the object grow.
\<close>

theorem tie_is_admitted:
  "current_batch_tokens + token_count (with_metrics encode a) = token_limit self \<Longrightarrow>
   loop_body encode (current_batch, current_batch_tokens, n, self) a =
     (current_batch @ [with_metrics encode a], token_limit self, n,
      self\<lparr>total_words := total_words self + word_count (with_metrics encode a),
           total_tokens := total_tokens self + token_count (with_metrics encode a)\<rparr>)"
  by (simp add: Let_def)

theorem tie_is_admitted_witness:
  "7 + token_count (with_metrics letter_tokens \<lparr>pmid = ''3'', title = ''e'', abstract = ''ff''\<rparr>)
     = token_limit sample_fetcher \<and>
   loop_body letter_tokens
     ([with_metrics letter_tokens \<lparr>pmid = ''2'', title = ''ccccc'', abstract = ''dd''\<rparr>], 7, 2,
      sample_fetcher) \<lparr>pmid = ''3'', title = ''e'', abstract = ''ff''\<rparr> =
     ([with_metrics letter_tokens \<lparr>pmid = ''2'', title = ''ccccc'', abstract = ''dd''\<rparr>,
       with_metrics letter_tokens \<lparr>pmid = ''3'', title = ''e'', abstract = ''ff''\<rparr>], 10, 2,
      sample_fetcher\<lparr>total_words := 2, total_tokens := 3\<rparr>)"
proof -
  let ?a = "\<lparr>pmid = ''3'', title = ''e'', abstract = ''ff''\<rparr>"
  have r: "with_metrics letter_tokens ?a =
      \<lparr>pmid = ''3'', title = ''e'', abstract = ''ff'', word_count = 2, token_count = 3\<rparr>"
    by code_simp
  have tie: "7 + token_count (with_metrics letter_tokens ?a) = token_limit sample_fetcher"
    by (simp add: r sample_limit)
  have totals: "total_words sample_fetcher = 0" "total_tokens sample_fetcher = 0"
    by (simp_all add: sample_fetcher_def init_def)
  from tie_is_admitted[OF tie, of "[with_metrics letter_tokens
      \<lparr>pmid = ''2'', title = ''ccccc'', abstract = ''dd''\<rparr>]" 2] tie
  show ?thesis by (simp add: r sample_limit totals)
qed

text \<open>
  C5 (determinism). The batches a call saves and the entries it appends are determined by
  the articles, the tokenizer and \<open>token_limit\<close>: two objects with the same \<open>token_limit\<close>,
  whatever their counters, their lists and their other attributes are, save the same
  batches for the same articles (the same articles in each batch, the same batch numbers
  and token totals) and append the same entries. In particular a second call on the
  object the first call left behind repeats the batches of the first.
\<close>

theorem packing_deterministic:
  "token_limit s1 = token_limit s2 \<Longrightarrow>
   new_files encode s1 articles = new_files encode s2 articles \<and>
   new_entries encode s1 articles = new_entries encode s2 articles \<and>
   new_files encode (process_and_batch_articles encode s1 articles) articles =
     new_files encode s1 articles \<and>
   new_entries encode (process_and_batch_articles encode s1 articles) articles =
     new_entries encode s1 articles"
  by (simp add: new_files_emit new_entries_emit process_and_batch_articles_def)

theorem packing_deterministic_witness:
  "token_limit sample_fetcher = token_limit busy_fetcher \<and>
   skipped_articles busy_fetcher = 2 \<and>
   length (saved busy_fetcher) = 1 \<and>
   new_files letter_tokens sample_fetcher sample_articles =
     new_files letter_tokens busy_fetcher sample_articles \<and>
   new_entries letter_tokens sample_fetcher sample_articles =
     new_entries letter_tokens busy_fetcher sample_articles \<and>
   map file_number (new_files letter_tokens busy_fetcher sample_articles) = [1, 2, 3]"
proof -
  have same_limit: "token_limit sample_fetcher = token_limit busy_fetcher"
    by (simp add: busy_fetcher_def)
  have busy: "skipped_articles busy_fetcher = 2" "length (saved busy_fetcher) = 1"
    by (simp_all add: busy_fetcher_def)
  note inst = packing_deterministic[OF same_limit, of letter_tokens sample_articles]
  from inst have files: "new_files letter_tokens sample_fetcher sample_articles =
      new_files letter_tokens busy_fetcher sample_articles" by blast
  from inst have entries: "new_entries letter_tokens sample_fetcher sample_articles =
      new_entries letter_tokens busy_fetcher sample_articles" by blast
  have "map file_number (new_files letter_tokens busy_fetcher sample_articles) = [1, 2, 3]"
    by (simp add: files[symmetric] sample_files)
  with same_limit busy files entries show ?thesis by blast
qed

text \<open>
  C6 (totals). On the object as \<open>__init__\<close> leaves it, the call sets \<open>total_tokens\<close> to the
  sum of the token counts of the input articles and \<open>total_words\<close> to the sum of their word
  counts; on any object, it adds these sums to the two totals. The token sum is also the
  sum of the token totals of the saved batches, whatever \<open>token_limit\<close> is.
\<close>

theorem totals_equation:
  "total_tokens (process_and_batch_articles encode (init q y m lim out ro) articles) =
     sum_list (map (\<lambda>a. token_count (with_metrics encode a)) articles) \<and>
   total_words (process_and_batch_articles encode (init q y m lim out ro) articles) =
     sum_list (map (\<lambda>a. word_count (with_metrics encode a)) articles) \<and>
   total_tokens (process_and_batch_articles encode self articles) =
     total_tokens self + sum_list (map (\<lambda>a. token_count (with_metrics encode a)) articles) \<and>
   total_words (process_and_batch_articles encode self articles) =
     total_words self + sum_list (map (\<lambda>a. word_count (with_metrics encode a)) articles) \<and>
   sum_list (map file_tokens (new_files encode self articles)) =
     sum_list (map (\<lambda>a. token_count (with_metrics encode a)) articles)"
proof -
  have "sum_list (map file_tokens (new_files encode self articles)) =
     sum_list (map (\<lambda>a. token_count (with_metrics encode a)) articles)"
    using emit_tokens_total[of "token_limit self" "[]" 1 "map (with_metrics encode) articles"]
    by (simp add: new_files_emit comp_def)
  then show ?thesis
    by (simp add: process_and_batch_articles_def tokens_loop words_loop init_def)
qed

text \<open>
  C9 (batch metadata). The token total saved with a batch is the sum of the token counts
  of its articles; the batches of a call are numbered 1, 2, 3, ... in the order they are
  saved; and the entry appended to \<open>self.batches\<close> for a batch carries its number, the
  number of its articles and its token total.
\<close>

theorem batch_metadata:
  "(\<forall>b \<in> set (new_files encode self articles).
      file_tokens b = sum_list (map token_count (file_articles b))) \<and>
   map file_number (new_files encode self articles) =
     map (\<lambda>i. 1 + int i) [0..<length (new_files encode self articles)] \<and>
   new_entries encode self articles =
     map (\<lambda>b. \<lparr>batch_number = file_number b, article_count = int (length (file_articles b)),
               batch_tokens = file_tokens b\<rparr>) (new_files encode self articles) \<and>
   map batch_number (new_entries encode self articles) =
     map (\<lambda>i. 1 + int i) [0..<length (new_entries encode self articles)]"
proof -
  let ?fs = "new_files encode self articles"
  have sums: "\<forall>b \<in> set ?fs. file_tokens b = sum_list (map token_count (file_articles b))"
    using emit_sum[of _ "token_limit self" "[]" 1] by (simp add: new_files_emit)
  have nums: "map file_number ?fs = map (\<lambda>i. 1 + int i) [0..<length ?fs]"
    by (simp only: new_files_emit emit_numbers[symmetric])
  have ents: "new_entries encode self articles = map entry_of ?fs"
    by (simp add: new_files_emit new_entries_emit)
  have "map batch_number (map entry_of ?fs) = map file_number ?fs"
    by (simp add: entry_of_def comp_def)
  with nums ents have "map batch_number (new_entries encode self articles) =
     map (\<lambda>i. 1 + int i) [0..<length (new_entries encode self articles)]" by simp
  with sums nums ents show ?thesis by (simp add: entry_of_def fun_eq_iff)
qed

theorem batch_metadata_witness:
  "file_tokens (new_files letter_tokens sample_fetcher sample_articles ! 1) =
     sum_list (map token_count
       (file_articles (new_files letter_tokens sample_fetcher sample_articles ! 1))) \<and>
   file_tokens (new_files letter_tokens sample_fetcher sample_articles ! 1) = 10 \<and>
   map file_number (new_files letter_tokens sample_fetcher sample_articles) = [1, 2, 3] \<and>
   map batch_number (new_entries letter_tokens sample_fetcher sample_articles) = [1, 2, 3]"
proof -
  let ?fs = "new_files letter_tokens sample_fetcher sample_articles"
  have mem: "?fs ! 1 \<in> set ?fs" by (simp add: sample_files)
  have len: "length ?fs = 3" by (simp add: sample_files)
  have upt: "[0..<3] = [0, 1, 2]" by (simp add: upt_rec)
  note inst = batch_metadata[of letter_tokens sample_fetcher sample_articles]
  from inst mem have "file_tokens (?fs ! 1) = sum_list (map token_count (file_articles (?fs ! 1)))"
    by blast
  moreover have "file_tokens (?fs ! 1) = 10" by (simp add: sample_files)
  moreover from inst have "map file_number ?fs = map (\<lambda>i. 1 + int i) [0..<length ?fs]"
    by blast
  then have "map file_number ?fs = [1, 2, 3]" by (simp add: len upt)
  moreover from inst
  have "map batch_number (new_entries letter_tokens sample_fetcher sample_articles) =
      map (\<lambda>i. 1 + int i) [0..<length (new_entries letter_tokens sample_fetcher sample_articles)]"
    by blast
  then have "map batch_number (new_entries letter_tokens sample_fetcher sample_articles)
      = [1, 2, 3]" by (simp add: sample_entries upt)
  ultimately show ?thesis by blast
qed

text \<open>
  C10 (no empty batch). Every batch saved holds at least one article, every entry appended
  to \<open>self.batches\<close> has an article count of at least one, and on the empty input
  nothing is saved and nothing is appended.
\<close>

theorem no_empty_batch:
  "(\<forall>b \<in> set (new_files encode self articles). file_articles b \<noteq> []) \<and>
   (\<forall>e \<in> set (new_entries encode self articles). 1 \<le> article_count e) \<and>
   new_files encode self [] = [] \<and> new_entries encode self [] = []"
proof -
  have a: "file_articles b \<noteq> []" if "b \<in> set (new_files encode self articles)" for b
    using that by (simp add: new_files_emit emit_nonempty)
  have "1 \<le> article_count e" if "e \<in> set (new_entries encode self articles)" for e
  proof -
    from that obtain b where "b \<in> set (new_files encode self articles)" "e = entry_of b"
      by (auto simp: new_entries_emit new_files_emit)
    with a[of b] show ?thesis by (cases "file_articles b") (simp_all add: entry_of_def)
  qed
  with a show ?thesis by (simp add: new_files_emit new_entries_emit)
qed

theorem no_empty_batch_witness:
  "file_tokens (new_files letter_tokens sample_fetcher blank_articles ! 0) = 0 \<and>
   file_articles (new_files letter_tokens sample_fetcher blank_articles ! 0) \<noteq> [] \<and>
   1 \<le> article_count (new_entries letter_tokens sample_fetcher blank_articles ! 0)"
proof -
  let ?fs = "new_files letter_tokens sample_fetcher blank_articles"
  let ?es = "new_entries letter_tokens sample_fetcher blank_articles"
  have fs: "?fs = [\<lparr>file_number = 1,
       file_articles = [\<lparr>pmid = ''5'', title = [], abstract = [], word_count = 0, token_count = 0\<rparr>,
                        \<lparr>pmid = ''6'', title = [], abstract = [], word_count = 0, token_count = 0\<rparr>],
       file_tokens = 0\<rparr>]"
    by code_simp
  have es: "?es = [\<lparr>batch_number = 1, article_count = 2, batch_tokens = 0\<rparr>]"
    by code_simp
  have mem: "?fs ! 0 \<in> set ?fs" "?es ! 0 \<in> set ?es"
    by (simp_all add: fs es)
  note inst = no_empty_batch[of letter_tokens sample_fetcher blank_articles]
  from inst mem have "file_articles (?fs ! 0) \<noteq> []" "1 \<le> article_count (?es ! 0)"
    by blast+
  moreover have "file_tokens (?fs ! 0) = 0" by (simp add: fs)
  ultimately show ?thesis by blast
qed

section \<open>Claims about the quality filter\<close>

text \<open>
  C7 as stated does not hold: the filter tests that the key \<open>AbstractText\<close> is present,
  not that the text is non-empty. A record whose \<open>AbstractText\<close> is a single empty part is
  admitted with an empty abstract, the skip counter stays as it was, and the article is
  saved in a batch.
\<close>

theorem empty_abstract_admitted:
  "fst (fetch_articles empty_abstract_efetch sample_fetcher [''7'']) =
     [\<lparr>pmid = ''7'', title = ''T'', abstract = []\<rparr>] \<and>
   skipped_articles (snd (fetch_articles empty_abstract_efetch sample_fetcher [''7''])) =
     skipped_articles sample_fetcher \<and>
   map file_articles
     (new_files letter_tokens (snd (fetch_articles empty_abstract_efetch sample_fetcher [''7'']))
        (fst (fetch_articles empty_abstract_efetch sample_fetcher [''7'']))) =
     [[\<lparr>pmid = ''7'', title = ''T'', abstract = [], word_count = 1, token_count = 1\<rparr>]]"
  by code_simp

text \<open>
  C7 (quality filter, amended). A fetched record is admitted exactly when it carries a
  \<open>PMID\<close>, an \<open>ArticleTitle\<close> and an \<open>Abstract\<close> with the key \<open>AbstractText\<close>; the text
  under that key may be empty. \<open>fetch_articles\<close> returns the admitted records of all
  fetched records, in order, and adds one to the skip counter for every rejected record.
  The batches saved from its result hold the admitted records only, and the totals and
  the article count are those of the admitted records only.
\<close>

theorem quality_filter:
  "(extract_article r = Admitted a \<longleftrightarrow>
      (\<exists>mc ad ab txt. MedlineCitation r = Some mc \<and> PMID mc = Some (pmid a) \<and>
         Article mc = Some ad \<and> ArticleTitle ad = Some (title a) \<and> Abstract ad = Some ab \<and>
         AbstractText ab = Some txt \<and>
         abstract a = (case txt of Parts ps \<Rightarrow> join_space ps | Whole w \<Rightarrow> w))) \<and>
   fst (fetch_articles efetch self pmid_list) = admitted (fetched efetch pmid_list) \<and>
   snd (fetch_articles efetch self pmid_list) =
     self\<lparr>skipped_articles := skipped_articles self
          + int (length (filter rejected (fetched efetch pmid_list)))\<rparr> \<and>
   concat (map file_articles
     (new_files encode (snd (fetch_articles efetch self pmid_list))
        (fst (fetch_articles efetch self pmid_list)))) =
     map (with_metrics encode) (admitted (fetched efetch pmid_list)) \<and>
   total_tokens (process_and_batch_articles encode (snd (fetch_articles efetch self pmid_list))
       (fst (fetch_articles efetch self pmid_list))) =
     total_tokens self
     + sum_list (map (\<lambda>a. token_count (with_metrics encode a)) (admitted (fetched efetch pmid_list))) \<and>
   total_words (process_and_batch_articles encode (snd (fetch_articles efetch self pmid_list))
       (fst (fetch_articles efetch self pmid_list))) =
     total_words self
     + sum_list (map (\<lambda>a. word_count (with_metrics encode a)) (admitted (fetched efetch pmid_list))) \<and>
   total_articles (process_and_batch_articles encode (snd (fetch_articles efetch self pmid_list))
       (fst (fetch_articles efetch self pmid_list))) =
     int (length (admitted (fetched efetch pmid_list)))"
proof -
  let ?arts = "admitted (fetched efetch pmid_list)"
  have "total_articles (finish st ?arts) = int (length ?arts)" for st
    by (cases st) (simp add: Let_def close_batch_def save_batch_def)
  then show ?thesis
    by (simp add: extract_article_Admitted fetch_articles_result new_files_emit emit_concat
        process_and_batch_articles_def tokens_loop words_loop)
qed

theorem quality_filter_witness:
  "fst (fetch_articles sample_efetch sample_fetcher [''1'', ''8'', ''2'', ''9'', ''3'']) =
     [\<lparr>pmid = ''1'', title = ''aaa'', abstract = ''bb''\<rparr>,
      \<lparr>pmid = ''2'', title = ''ccccc'', abstract = ''dd''\<rparr>,
      \<lparr>pmid = ''3'', title = ''e'', abstract = ''f f''\<rparr>] \<and>
   skipped_articles (snd (fetch_articles sample_efetch sample_fetcher [''1'', ''8'', ''2'', ''9'', ''3'']))
     = 2"
proof -
  let ?ids = "[''1'', ''8'', ''2'', ''9'', ''3'']"
  have a: "admitted (fetched sample_efetch ?ids) =
     [\<lparr>pmid = ''1'', title = ''aaa'', abstract = ''bb''\<rparr>,
      \<lparr>pmid = ''2'', title = ''ccccc'', abstract = ''dd''\<rparr>,
      \<lparr>pmid = ''3'', title = ''e'', abstract = ''f f''\<rparr>]"
    by code_simp
  have r: "int (length (filter rejected (fetched sample_efetch ?ids))) = 2"
    by code_simp
  have s: "skipped_articles sample_fetcher = 0"
    by (simp add: sample_fetcher_def init_def)
  note inst = quality_filter[of "complete_record ''1'' ''aaa'' [''bb'']"
      "\<lparr>pmid = ''1'', title = ''aaa'', abstract = ''bb''\<rparr>"
      sample_efetch sample_fetcher ?ids letter_tokens]
  from inst have "fst (fetch_articles sample_efetch sample_fetcher ?ids) =
      admitted (fetched sample_efetch ?ids)" by blast
  moreover from inst have "snd (fetch_articles sample_efetch sample_fetcher ?ids) =
      sample_fetcher\<lparr>skipped_articles := skipped_articles sample_fetcher
        + int (length (filter rejected (fetched sample_efetch ?ids)))\<rparr>" by blast
  ultimately show ?thesis by (simp add: a r s)
qed

section \<open>Claims about the summary\<close>

text \<open>
  C8 as stated does not hold in its second part. On the object as \<open>__init__\<close> leaves it,
  with no article, the summary file and the console summary are exactly the strings
  below: the line of the total tokens is followed at once by the next section (by the
  output directory on the console), and no string says anything about an average or about
  a value that is not applicable.
\<close>

theorem averages_not_reported:
  "total_articles sample_fetcher = 0 \<and>
   save_summary ''2026-01-01 00:00:00'' sample_fetcher = Inr
     [rule_of CHR ''='' @ nl,
      ''PUBMED FETCH SUMMARY'' @ nl,
      rule_of CHR ''='' @ nl @ nl,
      ''Search Query: sleep'' @ nl,
      ''Review Articles Only: False'' @ nl,
      ''Date Range: Last 5 year(s)'' @ nl,
      ''Fetch Date: 2026-01-01 00:00:00'' @ nl @ nl,
      rule_of CHR ''-'' @ nl,
      ''FETCH STATISTICS'' @ nl,
      rule_of CHR ''-'' @ nl,
      ''Total articles fetched: 0'' @ nl,
      ''Articles skipped (no abstract): 0'' @ nl,
      ''Total batches created: 0'' @ nl @ nl,
      rule_of CHR ''-'' @ nl,
      ''TOKEN & WORD METRICS'' @ nl,
      rule_of CHR ''-'' @ nl,
      ''Total words: 0'' @ nl,
      ''Total tokens: 0'' @ nl,
      rule_of CHR ''-'' @ nl,
      ''BATCH DISTRIBUTION'' @ nl,
      rule_of CHR ''-'' @ nl,
      nl @ rule_of CHR ''-'' @ nl,
      ''OUTPUT FILES'' @ nl,
      rule_of CHR ''-'' @ nl,
      ''Output directory: out'' @ nl,
      ''  - summary.txt'' @ nl,
      ''  - fetch_log.txt'' @ nl] \<and>
   print_summary sample_fetcher = Inr
     [nl @ rule_of CHR ''='',
      ''FINAL SUMMARY'',
      rule_of CHR ''='',
      ''Query: sleep'',
      ''Review only: False'',
      ''Total articles: 0'',
      ''Skipped: 0'',
      ''Total batches: 0'',
      ''Total words: 0'',
      ''Total tokens: 0'',
      nl @ ''Output directory: out'',
      rule_of CHR ''=''] \<and>
   \<not> says_average (save_summary ''2026-01-01 00:00:00'' sample_fetcher) \<and>
   \<not> says_average (print_summary sample_fetcher)"
  by code_simp

text \<open>
  C8 (averages, amended). \<open>save_summary\<close> and \<open>print_summary\<close> never raise a division
  error: they always return their output, and the output is exactly the following. When
  \<open>total_articles\<close> is zero (or less) the average lines are left out and nothing is written
  in their place: in the summary file the string of the total tokens is followed at once
  by the rule that opens the batch section, on the console by the output directory. When
  \<open>total_articles\<close> is positive the two average lines of the file, and the one of the
  console, stand between them, with the floor of the quotient.
\<close>

theorem averages_guarded:
  "(\<exists>strings. save_summary now self = Inr strings) \<and>
   (\<exists>strings. print_summary self = Inr strings) \<and>
   (total_articles self \<le> 0 \<longrightarrow>
      save_summary now self = Inr (
        [rule_of CHR ''='' @ nl,
         ''PUBMED FETCH SUMMARY'' @ nl,
         rule_of CHR ''='' @ nl @ nl,
         ''Search Query: '' @ query self @ nl,
         ''Review Articles Only: '' @ str_bool (review_only self) @ nl,
         ''Date Range: Last '' @ str_int (years self) @ '' year(s)'' @ nl,
         ''Fetch Date: '' @ now @ nl @ nl,
         rule_of CHR ''-'' @ nl,
         ''FETCH STATISTICS'' @ nl,
         rule_of CHR ''-'' @ nl,
         ''Total articles fetched: '' @ str_int (total_articles self) @ nl,
         ''Articles skipped (no abstract): '' @ str_int (skipped_articles self) @ nl,
         ''Total batches created: '' @ str_int (int (length (batches self))) @ nl @ nl,
         rule_of CHR ''-'' @ nl,
         ''TOKEN & WORD METRICS'' @ nl,
         rule_of CHR ''-'' @ nl,
         ''Total words: '' @ fmt_commas (total_words self) @ nl,
         ''Total tokens: '' @ fmt_commas (total_tokens self) @ nl,
         rule_of CHR ''-'' @ nl,
         ''BATCH DISTRIBUTION'' @ nl,
         rule_of CHR ''-'' @ nl]
        @ map (\<lambda>b. ''Batch '' @ str_int (batch_number b) @ '': '' @ str_int (article_count b)
                    @ '' articles, '' @ fmt_commas (batch_tokens b) @ '' tokens'' @ nl)
              (batches self) @
        [nl @ rule_of CHR ''-'' @ nl,
         ''OUTPUT FILES'' @ nl,
         rule_of CHR ''-'' @ nl,
         ''Output directory: '' @ output_dir self @ nl]
        @ map (\<lambda>i. ''  - pubmed_batch_'' @ str_nat i @ ''.txt'' @ nl)
              [1..<length (batches self) + 1] @
        [''  - summary.txt'' @ nl,
         ''  - fetch_log.txt'' @ nl]) \<and>
      print_summary self = Inr
        [nl @ rule_of CHR ''='',
         ''FINAL SUMMARY'',
         rule_of CHR ''='',
         ''Query: '' @ query self,
         ''Review only: '' @ str_bool (review_only self),
         ''Total articles: '' @ str_int (total_articles self),
         ''Skipped: '' @ str_int (skipped_articles self),
         ''Total batches: '' @ str_int (int (length (batches self))),
         ''Total words: '' @ fmt_commas (total_words self),
         ''Total tokens: '' @ fmt_commas (total_tokens self),
         nl @ ''Output directory: '' @ output_dir self,
         rule_of CHR ''='']) \<and>
   (0 < total_articles self \<longrightarrow>
      save_summary now self = Inr (
        [rule_of CHR ''='' @ nl,
         ''PUBMED FETCH SUMMARY'' @ nl,
         rule_of CHR ''='' @ nl @ nl,
         ''Search Query: '' @ query self @ nl,
         ''Review Articles Only: '' @ str_bool (review_only self) @ nl,
         ''Date Range: Last '' @ str_int (years self) @ '' year(s)'' @ nl,
         ''Fetch Date: '' @ now @ nl @ nl,
         rule_of CHR ''-'' @ nl,
         ''FETCH STATISTICS'' @ nl,
         rule_of CHR ''-'' @ nl,
         ''Total articles fetched: '' @ str_int (total_articles self) @ nl,
         ''Articles skipped (no abstract): '' @ str_int (skipped_articles self) @ nl,
         ''Total batches created: '' @ str_int (int (length (batches self))) @ nl @ nl,
         rule_of CHR ''-'' @ nl,
         ''TOKEN & WORD METRICS'' @ nl,
         rule_of CHR ''-'' @ nl,
         ''Total words: '' @ fmt_commas (total_words self) @ nl,
         ''Total tokens: '' @ fmt_commas (total_tokens self) @ nl,
         ''Average words per article: ''
           @ str_int (total_words self div total_articles self) @ nl,
         ''Average tokens per article: ''
           @ str_int (total_tokens self div total_articles self) @ nl @ nl,
         rule_of CHR ''-'' @ nl,
         ''BATCH DISTRIBUTION'' @ nl,
         rule_of CHR ''-'' @ nl]
        @ map (\<lambda>b. ''Batch '' @ str_int (batch_number b) @ '': '' @ str_int (article_count b)
                    @ '' articles, '' @ fmt_commas (batch_tokens b) @ '' tokens'' @ nl)
              (batches self) @
        [nl @ rule_of CHR ''-'' @ nl,
         ''OUTPUT FILES'' @ nl,
         rule_of CHR ''-'' @ nl,
         ''Output directory: '' @ output_dir self @ nl]
        @ map (\<lambda>i. ''  - pubmed_batch_'' @ str_nat i @ ''.txt'' @ nl)
              [1..<length (batches self) + 1] @
        [''  - summary.txt'' @ nl,
         ''  - fetch_log.txt'' @ nl]) \<and>
      print_summary self = Inr
        [nl @ rule_of CHR ''='',
         ''FINAL SUMMARY'',
         rule_of CHR ''='',
         ''Query: '' @ query self,
         ''Review only: '' @ str_bool (review_only self),
         ''Total articles: '' @ str_int (total_articles self),
         ''Skipped: '' @ str_int (skipped_articles self),
         ''Total batches: '' @ str_int (int (length (batches self))),
         ''Total words: '' @ fmt_commas (total_words self),
         ''Total tokens: '' @ fmt_commas (total_tokens self),
         ''Avg tokens/article: '' @ str_int (total_tokens self div total_articles self),
         nl @ ''Output directory: '' @ output_dir self,
         rule_of CHR ''=''])"
proof -
  have file_ok: "\<exists>strings. save_summary now self = Inr strings"
    by (simp add: save_summary_def summary_averages_eq)
  have console_ok: "\<exists>strings. print_summary self = Inr strings"
    by (simp add: print_summary_def printed_average_eq)
  have none: "summary_averages self = Inr [] \<and> printed_average self = Inr []"
    if "total_articles self \<le> 0"
    using that by (simp add: summary_averages_eq printed_average_eq)
  have some: "summary_averages self =
        Inr [''Average words per article: ''
               @ str_int (total_words self div total_articles self) @ nl,
             ''Average tokens per article: ''
               @ str_int (total_tokens self div total_articles self) @ nl @ nl] \<and>
      printed_average self =
        Inr [''Avg tokens/article: '' @ str_int (total_tokens self div total_articles self)]"
    if "0 < total_articles self"
    using that by (simp add: summary_averages_eq printed_average_eq)
  show ?thesis
    using file_ok console_ok none some
    by (simp add: save_summary_def print_summary_def)
qed

theorem averages_guarded_witness:
  "total_articles sample_fetcher \<le> 0 \<and>
   print_summary sample_fetcher = Inr
     [nl @ rule_of CHR ''='',
      ''FINAL SUMMARY'',
      rule_of CHR ''='',
      ''Query: sleep'',
      ''Review only: False'',
      ''Total articles: 0'',
      ''Skipped: 0'',
      ''Total batches: 0'',
      ''Total words: 0'',
      ''Total tokens: 0'',
      nl @ ''Output directory: out'',
      rule_of CHR ''=''] \<and>
   0 < total_articles (process_and_batch_articles letter_tokens sample_fetcher sample_articles) \<and>
   print_summary (process_and_batch_articles letter_tokens sample_fetcher sample_articles) = Inr
     [nl @ rule_of CHR ''='',
      ''FINAL SUMMARY'',
      rule_of CHR ''='',
      ''Query: sleep'',
      ''Review only: False'',
      ''Total articles: 4'',
      ''Skipped: 0'',
      ''Total batches: 3'',
      ''Total words: 8'',
      ''Total tokens: 27'',
      ''Avg tokens/article: 6'',
      nl @ ''Output directory: out'',
      rule_of CHR ''='']"
proof -
  let ?p = "process_and_batch_articles letter_tokens sample_fetcher sample_articles"
  have zero: "total_articles sample_fetcher \<le> 0"
    by (simp add: sample_fetcher_def init_def)
  have pos: "0 < total_articles ?p"
    by code_simp
  have fields0: "query sample_fetcher = ''sleep''" "review_only sample_fetcher = False"
    "total_articles sample_fetcher = 0" "skipped_articles sample_fetcher = 0"
    "batches sample_fetcher = []" "total_words sample_fetcher = 0"
    "total_tokens sample_fetcher = 0" "output_dir sample_fetcher = ''out''"
    by (simp_all add: sample_fetcher_def init_def)
  have fields: "query ?p = ''sleep''" "review_only ?p = False" "total_articles ?p = 4"
    "skipped_articles ?p = 0" "length (batches ?p) = 3" "total_words ?p = 8"
    "total_tokens ?p = 27" "output_dir ?p = ''out''"
    by code_simp+
  have strs: "str_int 0 = ''0''" "str_int 3 = ''3''" "str_int 4 = ''4''" "str_int 6 = ''6''"
    "fmt_commas 0 = ''0''" "fmt_commas 8 = ''8''" "fmt_commas 27 = ''27''"
    "str_bool False = ''False''"
    by code_simp+
  note empty_run = averages_guarded[of "''2026-01-01 00:00:00''" sample_fetcher]
  note full_run = averages_guarded[of "''2026-01-01 00:00:00''" ?p]
  from empty_run zero have "print_summary sample_fetcher = Inr
     [nl @ rule_of CHR ''='', ''FINAL SUMMARY'', rule_of CHR ''='', ''Query: sleep'',
      ''Review only: False'', ''Total articles: 0'', ''Skipped: 0'', ''Total batches: 0'',
      ''Total words: 0'', ''Total tokens: 0'', nl @ ''Output directory: out'',
      rule_of CHR ''='']"
    by (simp add: fields0 strs)
  moreover from full_run pos have "print_summary ?p = Inr
     [nl @ rule_of CHR ''='', ''FINAL SUMMARY'', rule_of CHR ''='', ''Query: sleep'',
      ''Review only: False'', ''Total articles: 4'', ''Skipped: 0'', ''Total batches: 3'',
      ''Total words: 8'', ''Total tokens: 27'', ''Avg tokens/article: 6'',
      nl @ ''Output directory: out'', rule_of CHR ''='']"
    by (simp add: fields strs)
  ultimately show ?thesis using zero pos by blast
qed

end
